theory Spec2Isabelle
  imports Complex_Main "HOL-Library.Sublist"
begin

section \<open>JavaScript string primitives used by the server\<close>

text \<open>
  Strings are byte strings (\<open>char list\<close>); for ASCII text a byte is a UTF-16 code unit,
  so \<open>length\<close> is the \<open>.length\<close> of the script. The functions below are the
  built-ins the two request handlers call.
\<close>

definition is_space :: "char \<Rightarrow> bool" where
  \<comment> \<open>the ASCII part of what \<open>String.prototype.trim\<close> strips: TAB, LF, VT, FF, CR, space\<close>
  "is_space c = (of_char c \<in> {9, 10, 11, 12, 13, 32 :: nat})"

definition trim :: "string \<Rightarrow> string" where
  "trim s = rev (dropWhile is_space (rev (dropWhile is_space s)))"

definition lower_char :: "char \<Rightarrow> char" where
  "lower_char c =
     (let n = (of_char c :: nat) in if 65 \<le> n \<and> n \<le> 90 then char_of (n + 32) else c)"

definition toLowerCase :: "string \<Rightarrow> string" where
  "toLowerCase s = map lower_char s"

definition startsWith :: "string \<Rightarrow> string \<Rightarrow> bool" where
  \<comment> \<open>\<open>s.startsWith(p)\<close>\<close>
  "startsWith s p = (take (length p) s = p)"

fun str_includes :: "string \<Rightarrow> string \<Rightarrow> bool" where
  \<comment> \<open>\<open>s.includes(k)\<close>: \<open>k\<close> occurs in \<open>s\<close> at some position\<close>
  "str_includes [] k = (k = [])"
| "str_includes (c # s) k = (startsWith (c # s) k \<or> str_includes s k)"

fun split_acc :: "char \<Rightarrow> string \<Rightarrow> string \<Rightarrow> string list" where
  "split_acc sep cur [] = [rev cur]"
| "split_acc sep cur (c # s) =
     (if c = sep then rev cur # split_acc sep [] s else split_acc sep (c # cur) s)"

definition split :: "string \<Rightarrow> char \<Rightarrow> string list" where
  \<comment> \<open>\<open>s.split(sep)\<close> for a one-character separator; \<open>"".split(",")\<close> is \<open>[""]\<close>\<close>
  "split s sep = split_acc sep [] s"

definition truthy :: "string \<Rightarrow> bool" where
  \<comment> \<open>a string in a boolean context: the empty string is falsy\<close>
  "truthy s = (s \<noteq> [])"

definition or_empty :: "string option \<Rightarrow> string" where
  \<comment> \<open>\<open>x || ""\<close> for a field that is a string or absent\<close>
  "or_empty x = (case x of None \<Rightarrow> [] | Some s \<Rightarrow> s)"

definition some :: "('a \<Rightarrow> bool) \<Rightarrow> 'a list \<Rightarrow> bool" where
  \<comment> \<open>\<open>Array.prototype.some\<close>\<close>
  "some P xs = list_ex P xs"

section \<open>Keyword filtering\<close>

definition crawler_keywordList :: "string \<Rightarrow> string list" where
  \<comment> \<open>startCrawler: \<open>keywords.split(",").map(k => k.trim().toLowerCase())\<close>\<close>
  "crawler_keywordList keywords = map (\<lambda>k. toLowerCase (trim k)) (split keywords CHR '','')"

definition crawler_matchesKeywords :: "string option \<Rightarrow> string \<Rightarrow> bool" where
  \<comment> \<open>startCrawler, lines 125-130; the second argument is \<open>$("body").text()\<close>\<close>
  "crawler_matchesKeywords keywords bodyText =
     (case keywords of
        None \<Rightarrow> True
      | Some ks \<Rightarrow>
          if length ks > 0
          then (let pageText = toLowerCase bodyText;
                    keywordList = crawler_keywordList ks
                in some (\<lambda>k. str_includes pageText k) keywordList)
          else True)"

definition gatherer_keywordList :: "string \<Rightarrow> string list" where
  \<comment> \<open>startGatherer: the same list with the empty entries filtered out\<close>
  "gatherer_keywordList searchKeywords =
     filter truthy (map (\<lambda>k. toLowerCase (trim k)) (split searchKeywords CHR '',''))"

definition gatherer_matchesKeywords :: "string \<Rightarrow> string \<Rightarrow> string \<Rightarrow> bool" where
  \<comment> \<open>startGatherer, lines 211-217; \<open>title\<close> is the trimmed title, \<open>bodyText\<close> the body text\<close>
  "gatherer_matchesKeywords searchKeywords title bodyText =
     (let pageText = toLowerCase bodyText in
      if truthy searchKeywords
      then (let keywordList = gatherer_keywordList searchKeywords;
                titleLower = toLowerCase title
            in some (\<lambda>k. str_includes pageText k \<or> str_includes titleLower k) keywordList)
      else True)"

section \<open>Arrays and the document query capability\<close>

definition new_Set :: "'a list \<Rightarrow> 'a list" where
  \<comment> \<open>\<open>[...new Set(xs)]\<close>: a Set keeps the first occurrence of each value, in insertion order\<close>
  "new_Set xs = fold (\<lambda>x acc. if x \<in> set acc then acc else acc @ [x]) xs []"

fun findIndex :: "('a \<Rightarrow> bool) \<Rightarrow> 'a list \<Rightarrow> int" where
  \<comment> \<open>\<open>Array.prototype.findIndex\<close>: the first index whose element satisfies \<open>P\<close>, or -1\<close>
  "findIndex P [] = - 1"
| "findIndex P (x # xs) =
     (if P x then 0 else (let r = findIndex P xs in if r < 0 then - 1 else r + 1))"

definition filter_indexed :: "('a \<Rightarrow> int \<Rightarrow> 'a list \<Rightarrow> bool) \<Rightarrow> 'a list \<Rightarrow> 'a list" where
  \<comment> \<open>\<open>a.filter((v, i, a) => f(v, i, a))\<close>\<close>
  "filter_indexed f a = map (\<lambda>i. a ! i) (filter (\<lambda>i. f (a ! i) (int i) a) [0..<length a])"

definition slice0 :: "nat \<Rightarrow> 'a list \<Rightarrow> 'a list" where
  \<comment> \<open>\<open>a.slice(0, n)\<close>\<close>
  "slice0 n a = take n a"

definition get_defined :: "'a option list \<Rightarrow> 'a list" where
  \<comment> \<open>cheerio's \<open>.map(f).get()\<close> leaves out the elements for which \<open>f\<close> returned undefined\<close>
  "get_defined xs = concat (map (\<lambda>x. case x of None \<Rightarrow> [] | Some v \<Rightarrow> [v]) xs)"

record img =
  img_src :: "string option"
  img_alt :: "string option"

definition src_truthy :: "img \<Rightarrow> bool" where
  \<comment> \<open>\<open>img => img.src\<close>: defined and not empty\<close>
  "src_truthy i = (case img_src i of None \<Rightarrow> False | Some s \<Rightarrow> truthy s)"

definition src_http :: "img \<Rightarrow> bool" where
  \<comment> \<open>\<open>img => img.src && img.src.startsWith('http')\<close>\<close>
  "src_http i = (case img_src i of None \<Rightarrow> False | Some s \<Rightarrow> truthy s \<and> startsWith s ''http'')"

text \<open>
  A fetched page, as the handlers see it through the parsed document \<open>$\<close>: the result of
  each query the handlers make, in document order. The clock reading of the handler
  (\<open>new Date().toISOString()\<close>) is part of the input.
\<close>

record page =
  request_url :: string
  title_text :: string
  body_text :: string
  heading_texts :: "string list"
  paragraph_texts :: "string list"
  meta_description :: "string option"
  meta_keywords :: "string option"
  img_elems :: "img list"
  anchor_hrefs :: "string option list"
  result_a_hrefs :: "string option list"
  result_title_a_hrefs :: "string option list"
  clock_iso :: string

record meta_info =
  meta_desc :: "string option"
  meta_kw :: "string option"

record extracted =
  rec_url :: string
  rec_title :: string
  rec_type :: string
  rec_timestamp :: string
  rec_headings :: "string list option"
  rec_text :: "string list option"
  rec_meta :: "meta_info option"
  rec_images :: "img list option"
  rec_links :: "string list option"

section \<open>Selectors\<close>

datatype selectors_field = SelArray "string list" | SelString string | SelAbsent

definition normalize_selectors :: "selectors_field \<Rightarrow> string list" where
  \<comment> \<open>lines 75-77 and 166-168\<close>
  "normalize_selectors selectors =
     (case selectors of
        SelArray xs \<Rightarrow> map (\<lambda>s. trim (toLowerCase s)) xs
      | SelString s \<Rightarrow>
          (if truthy s then map (\<lambda>s. trim (toLowerCase s)) (split s CHR '','') else [])
      | SelAbsent \<Rightarrow> [])"

section \<open>Extraction in Site mode (startCrawler)\<close>

definition crawler_headings :: "page \<Rightarrow> string list" where
  "crawler_headings p = new_Set (filter (\<lambda>t. length t > 0) (map trim (heading_texts p)))"

definition crawler_text :: "page \<Rightarrow> string list" where
  "crawler_text p = filter (\<lambda>t. length t > 0) (map trim (paragraph_texts p))"

definition crawler_images :: "page \<Rightarrow> img list" where
  "crawler_images p =
     (let images = filter src_truthy (img_elems p)
      in filter_indexed (\<lambda>v i a. findIndex (\<lambda>t. img_src t = img_src v) a = i) images)"

definition crawler_links :: "page \<Rightarrow> string list" where
  "crawler_links p = new_Set (filter truthy (get_defined (anchor_hrefs p)))"

definition crawler_extract :: "string list \<Rightarrow> page \<Rightarrow> extracted" where
  \<comment> \<open>lines 83-122: the record built by the Site request handler\<close>
  "crawler_extract normalizedSelectors p =
     \<lparr> rec_url = request_url p,
       rec_title = title_text p,
       rec_type = ''page'',
       rec_timestamp = clock_iso p,
       rec_headings =
         (if some (\<lambda>s. str_includes s ''heading'') normalizedSelectors
          then Some (crawler_headings p) else None),
       rec_text =
         (if some (\<lambda>s. str_includes s ''text'' \<or> str_includes s ''paragraph'') normalizedSelectors
          then Some (crawler_text p) else None),
       rec_meta =
         (if some (\<lambda>s. str_includes s ''meta'') normalizedSelectors
          then Some \<lparr> meta_desc = meta_description p, meta_kw = meta_keywords p \<rparr> else None),
       rec_images =
         (if some (\<lambda>s. str_includes s ''image'') normalizedSelectors
          then Some (crawler_images p) else None),
       rec_links =
         (if some (\<lambda>s. str_includes s ''link'' \<or> str_includes s ''url'') normalizedSelectors
          then Some (crawler_links p) else None) \<rparr>"

section \<open>Extraction in Gather mode (startGatherer)\<close>

definition array_includes :: "'a list \<Rightarrow> 'a \<Rightarrow> bool" where
  \<comment> \<open>\<open>Array.prototype.includes\<close>\<close>
  "array_includes xs x = (x \<in> set xs)"

definition gatherer_headings :: "page \<Rightarrow> string list" where
  "gatherer_headings p = filter (\<lambda>t. length t > 2) (map trim (heading_texts p))"

definition gatherer_text :: "page \<Rightarrow> string list" where
  "gatherer_text p = slice0 10 (filter (\<lambda>t. length t > 20) (map trim (paragraph_texts p)))"

definition gatherer_images :: "page \<Rightarrow> img list" where
  "gatherer_images p = slice0 10 (filter src_http (img_elems p))"

definition gatherer_links :: "page \<Rightarrow> string list" where
  "gatherer_links p =
     slice0 20 (filter (\<lambda>l. truthy l \<and> startsWith l ''http'') (get_defined (anchor_hrefs p)))"

definition gatherer_extract :: "string list \<Rightarrow> string \<Rightarrow> page \<Rightarrow> extracted" where
  \<comment> \<open>lines 221-249; \<open>title\<close> is the trimmed title computed at line 207\<close>
  "gatherer_extract normalizedSelectors title p =
     \<lparr> rec_url = request_url p,
       rec_title = title,
       rec_type = ''gathered'',
       rec_timestamp = clock_iso p,
       rec_headings =
         (if array_includes normalizedSelectors ''headings''
          then Some (gatherer_headings p) else None),
       rec_text =
         (if array_includes normalizedSelectors ''text''
          then Some (gatherer_text p) else None),
       rec_meta =
         (if array_includes normalizedSelectors ''meta''
          then Some \<lparr> meta_desc = meta_description p, meta_kw = meta_keywords p \<rparr> else None),
       rec_images =
         (if array_includes normalizedSelectors ''images''
          then Some (gatherer_images p) else None),
       rec_links =
         (if array_includes normalizedSelectors ''links''
          then Some (gatherer_links p) else None) \<rparr>"

section \<open>Numbers and URL built-ins\<close>

definition or_default :: "int option \<Rightarrow> int \<Rightarrow> int" where
  \<comment> \<open>\<open>parseInt(limit) || d\<close>; the argument is the value of \<open>parseInt(limit)\<close>, \<open>None\<close> for
      NaN. NaN and 0 are falsy, every other integer (negative ones too) is kept.\<close>
  "or_default parsed d = (case parsed of None \<Rightarrow> d | Some n \<Rightarrow> if n = 0 then d else n)"

definition ceil_div :: "int \<Rightarrow> int \<Rightarrow> int" where
  \<comment> \<open>\<open>Math.ceil(a / b)\<close> for integers and positive \<open>b\<close>\<close>
  "ceil_div a b = - ((- a) div b)"

definition digit_char :: "nat \<Rightarrow> char" where
  "digit_char d = char_of (48 + d)"

fun string_of_nat :: "nat \<Rightarrow> string" where
  "string_of_nat n =
     (if n < 10 then [digit_char n] else string_of_nat (n div 10) @ [digit_char (n mod 10)])"

definition string_of_int :: "int \<Rightarrow> string" where
  \<comment> \<open>a template literal's conversion of an integer\<close>
  "string_of_int i = (if i < 0 then CHR ''-'' # string_of_nat (nat (- i)) else string_of_nat (nat i))"

definition hex_digit :: "nat \<Rightarrow> char" where
  "hex_digit d = (if d < 10 then char_of (48 + d) else char_of (55 + d))"

definition uri_unreserved :: "char \<Rightarrow> bool" where
  \<comment> \<open>the characters \<open>encodeURIComponent\<close> leaves alone: letters, digits and \<open>- _ . ! ~ * ' ( )\<close>\<close>
  "uri_unreserved c =
     (let n = (of_char c :: nat) in
        (65 \<le> n \<and> n \<le> 90) \<or> (97 \<le> n \<and> n \<le> 122) \<or> (48 \<le> n \<and> n \<le> 57) \<or>
        n \<in> {45, 95, 46, 33, 126, 42, 39, 40, 41})"

definition encodeURIComponent :: "string \<Rightarrow> string" where
  "encodeURIComponent s =
     concat (map (\<lambda>c. if uri_unreserved c then [c]
                       else [CHR ''%'', hex_digit (of_char c div 16), hex_digit (of_char c mod 16)]) s)"

definition hex_val :: "char \<Rightarrow> nat option" where
  "hex_val c =
     (let n = (of_char c :: nat) in
        if 48 \<le> n \<and> n \<le> 57 then Some (n - 48)
        else if 65 \<le> n \<and> n \<le> 70 then Some (n - 55)
        else if 97 \<le> n \<and> n \<le> 102 then Some (n - 87)
        else None)"

fun percent_decode :: "string \<Rightarrow> string" where
  \<comment> \<open>a percent sign followed by two hexadecimal digits is the byte they write\<close>
  "percent_decode (c # h1 # h2 # s) =
     (if c = CHR ''%''
      then (case (hex_val h1, hex_val h2) of
              (Some a, Some b) \<Rightarrow> char_of (16 * a + b) # percent_decode s
            | _ \<Rightarrow> c # percent_decode (h1 # h2 # s))
      else c # percent_decode (h1 # h2 # s))"
| "percent_decode s = s"

definition form_decode :: "string \<Rightarrow> string" where
  \<comment> \<open>a name or value of a query string: \<open>+\<close> is a space, then percent-decoding\<close>
  "form_decode s = percent_decode (map (\<lambda>c. if c = CHR ''+'' then CHR '' '' else c) s)"

definition split_first :: "char \<Rightarrow> string \<Rightarrow> string \<times> string" where
  \<comment> \<open>the parts before and after the first \<open>sep\<close>; the second part is empty without one\<close>
  "split_first sep s = (takeWhile (\<lambda>c. c \<noteq> sep) s, drop 1 (dropWhile (\<lambda>c. c \<noteq> sep) s))"

definition parse_query :: "string \<Rightarrow> (string \<times> string) list" where
  \<comment> \<open>the name-value pairs of \<open>URLSearchParams\<close> for a query string\<close>
  "parse_query q =
     map (\<lambda>pair. (form_decode (fst (split_first CHR ''='' pair)),
                   form_decode (snd (split_first CHR ''='' pair))))
         (filter truthy (split q CHR ''&''))"

definition searchParams_get :: "(string \<times> string) list \<Rightarrow> string \<Rightarrow> string option" where
  \<comment> \<open>\<open>searchParams.get(name)\<close>: the first value of that name, or null\<close>
  "searchParams_get params name = map_of params name"

definition c0_or_space :: "char \<Rightarrow> bool" where
  "c0_or_space c = ((of_char c :: nat) \<le> 32)"

definition tab_or_newline :: "char \<Rightarrow> bool" where
  "tab_or_newline c = ((of_char c :: nat) \<in> {9, 10, 13})"

definition relative_url_query :: "string \<Rightarrow> string" where
  \<comment> \<open>The query of \<open>new URL(link, 'https://duckduckgo.com')\<close> for a \<open>link\<close> that starts with
      a single slash: the URL parser strips trailing controls and spaces, removes tabs and
      newlines, and the query is what lies between the first \<open>?\<close> and the first \<open>#\<close>.
      Such a link takes scheme and host from the base, and the constructor does not throw.\<close>
  "relative_url_query link =
     (let cleaned = filter (\<lambda>c. \<not> tab_or_newline c) (rev (dropWhile c0_or_space (rev link)));
          no_fragment = takeWhile (\<lambda>c. c \<noteq> CHR ''#'') cleaned
      in snd (split_first CHR ''?'' no_fragment))"

section \<open>The server: registry, emitted events, crawler requests\<close>

datatype event =
    CrawlData string extracted
  | CrawlComplete string
  | CrawlError string string

datatype enqueue_call =
    EnqueueAll string
  | EnqueueUrls "string list" string

record server =
  activeCrawlers :: "string set"
  teardowns :: "string list"
  emitted :: "event list"
  runs :: "(string \<times> string list) list"
  enqueues :: "(string \<times> enqueue_call) list"

text \<open>
  \<open>activeCrawlers\<close> is the key set of the registry map; \<open>teardowns\<close> lists the jobs whose
  crawler had \<open>teardown()\<close> called; \<open>emitted\<close> is the sequence of \<open>io.emit\<close> calls;
  \<open>runs\<close> the seed lists handed to \<open>crawler.run\<close>; \<open>enqueues\<close> the \<open>enqueueLinks\<close>
  calls, each with the job that made it.
\<close>

definition io_emit :: "event \<Rightarrow> server \<Rightarrow> server" where
  "io_emit ev srv = srv\<lparr>emitted := emitted srv @ [ev]\<rparr>"

definition enqueueLinks :: "string \<Rightarrow> enqueue_call \<Rightarrow> server \<Rightarrow> server" where
  "enqueueLinks jobId call srv = srv\<lparr>enqueues := enqueues srv @ [(jobId, call)]\<rparr>"

definition on_stop_crawl :: "string \<Rightarrow> server \<Rightarrow> server" where
  \<comment> \<open>lines 56-63: the handler of the \<open>stop-crawl\<close> message\<close>
  "on_stop_crawl jobId srv =
     (if jobId \<in> activeCrawlers srv
      then srv\<lparr>teardowns := teardowns srv @ [jobId],
               activeCrawlers := activeCrawlers srv - {jobId}\<rparr>
      else srv)"

section \<open>The Site request handler (startCrawler)\<close>

definition crawler_requestHandler ::
  "string \<Rightarrow> string list \<Rightarrow> string option \<Rightarrow> page \<Rightarrow> server \<Rightarrow> server" where
  \<comment> \<open>lines 81-139\<close>
  "crawler_requestHandler jobId normalizedSelectors keywords p srv =
     (if jobId \<notin> activeCrawlers srv then srv
      else
        (let extractedData = crawler_extract normalizedSelectors p;
             matchesKeywords = crawler_matchesKeywords keywords (body_text p);
             srv1 = (if matchesKeywords then io_emit (CrawlData jobId extractedData) srv else srv)
         in enqueueLinks jobId (EnqueueAll (request_url p)) srv1))"

section \<open>The Gather request handler (startGatherer)\<close>

definition ddg_unwrap :: "string \<Rightarrow> string" where
  \<comment> \<open>lines 268-274: the redirect wrapper \<open>/l/?uddg=...\<close>\<close>
  "ddg_unwrap link =
     (if startsWith link ''/l/''
      then (case searchParams_get (parse_query (relative_url_query link)) ''uddg'' of
              None \<Rightarrow> link
            | Some actualUrl \<Rightarrow> if truthy actualUrl then actualUrl else link)
      else link)"

definition ddg_enqueue_test :: "string \<Rightarrow> bool" where
  \<comment> \<open>line 276\<close>
  "ddg_enqueue_test link = (startsWith link ''http'' \<and> \<not> str_includes link ''duckduckgo.com'')"

definition ddg_link_step :: "string \<Rightarrow> string \<Rightarrow> server \<Rightarrow> server" where
  \<comment> \<open>lines 267-281: the body of the loop over \<open>allLinks\<close>\<close>
  "ddg_link_step jobId link0 srv =
     (let link = ddg_unwrap link0
      in if ddg_enqueue_test link
         then enqueueLinks jobId (EnqueueUrls [link] ''DETAIL'') srv
         else srv)"

definition ddg_allLinks :: "page \<Rightarrow> string list" where
  \<comment> \<open>lines 261-263\<close>
  "ddg_allLinks p =
     (let links = get_defined (result_a_hrefs p);
          fallbackLinks = get_defined (result_title_a_hrefs p)
      in new_Set (links @ fallbackLinks))"

definition gatherer_requestHandler ::
  "string \<Rightarrow> string \<Rightarrow> int \<Rightarrow> string list \<Rightarrow> page \<Rightarrow> server \<times> int \<Rightarrow> server \<times> int" where
  \<comment> \<open>lines 199-284; the second component of the state is the variable \<open>emittedCount\<close>\<close>
  "gatherer_requestHandler jobId searchKeywords targetLimit normalizedSelectors p st =
     (let srv = fst st; emittedCount = snd st in
      if jobId \<notin> activeCrawlers srv then st
      else if emittedCount \<ge> targetLimit then st
      else
        (let isDDG = str_includes (request_url p) ''duckduckgo.com'';
             st1 =
               (if \<not> isDDG then
                  (let title = trim (title_text p) in
                   if gatherer_matchesKeywords searchKeywords title (body_text p) then
                     (let extractedData = gatherer_extract normalizedSelectors title p in
                      if emittedCount < targetLimit
                      then (io_emit (CrawlData jobId extractedData) srv, emittedCount + 1)
                      else st)
                   else st)
                else st)
         in if isDDG
            then (fold (ddg_link_step jobId) (ddg_allLinks p) (fst st1), snd st1)
            else st1))"

section \<open>The crawler run\<close>

datatype action = Request page | StopCrawl string

datatype run_outcome = Resolved | Rejected string

text \<open>
  Modelled from the spec: the run loop of the crawler library (\<open>CheerioCrawler.run\<close> with
  its option \<open>maxRequestsPerCrawl\<close>), which the sources import and do not contain. Section
  4.2 of the spec gives its capacity policy: the entries ever dequeued in a job do not
  exceed \<open>maxRequestsPerCrawl\<close>. The list of actions is what happens while the run is
  pending: each page the library fetched and hands to the request handler, and each
  \<open>stop-crawl\<close> message the server receives, in the order the event loop takes them.
  The part of a request handler that checks the registry, extracts and emits has no
  \<open>await\<close> in it, so a stop message is handled before or after it, never inside.
  The first component of the state counts the requests handled.
\<close>

fun crawler_run ::
  "int \<Rightarrow> (page \<Rightarrow> 's \<Rightarrow> 's) \<Rightarrow> (string \<Rightarrow> 's \<Rightarrow> 's) \<Rightarrow> action list \<Rightarrow> int \<times> 's \<Rightarrow> int \<times> 's" where
  "crawler_run maxRequestsPerCrawl handler stop [] st = st"
| "crawler_run maxRequestsPerCrawl handler stop (Request p # acts) st =
     (if fst st < maxRequestsPerCrawl
      then crawler_run maxRequestsPerCrawl handler stop acts (fst st + 1, handler p (snd st))
      else crawler_run maxRequestsPerCrawl handler stop acts st)"
| "crawler_run maxRequestsPerCrawl handler stop (StopCrawl j # acts) st =
     crawler_run maxRequestsPerCrawl handler stop acts (fst st, stop j (snd st))"

section \<open>startCrawler\<close>

record crawl_request =
  cr_url :: string
  cr_selectors :: selectors_field
  cr_keywords :: "string option"
  cr_limit :: "int option"

text \<open>
  \<open>cr_limit\<close> and \<open>gr_limit\<close> hold the value of \<open>parseInt(limit)\<close>, \<open>None\<close> when it is NaN.
\<close>

definition crawler_pending :: "string \<Rightarrow> crawl_request \<Rightarrow> action list \<Rightarrow> server \<Rightarrow> server" where
  \<comment> \<open>lines 73-143: the state while \<open>await crawler.run([url])\<close> is pending, after the
      given actions\<close>
  "crawler_pending jobId req acts srv =
     (let normalizedSelectors = normalize_selectors (cr_selectors req);
          maxRequestsPerCrawl = or_default (cr_limit req) 50;
          srv1 = srv\<lparr>activeCrawlers := insert jobId (activeCrawlers srv)\<rparr>;
          srv2 = srv1\<lparr>runs := runs srv1 @ [(jobId, [cr_url req])]\<rparr>
      in snd (crawler_run maxRequestsPerCrawl
                (crawler_requestHandler jobId normalizedSelectors (cr_keywords req))
                on_stop_crawl acts (0, srv2)))"

definition startCrawler ::
  "string \<Rightarrow> crawl_request \<Rightarrow> action list \<Rightarrow> run_outcome \<Rightarrow> server \<Rightarrow> server" where
  \<comment> \<open>lines 72-151: the run settles with \<open>outcome\<close> after the actions\<close>
  "startCrawler jobId req acts outcome srv =
     (let srv' = crawler_pending jobId req acts srv
      in case outcome of
           Resolved \<Rightarrow>
             io_emit (CrawlComplete jobId) (srv'\<lparr>activeCrawlers := activeCrawlers srv' - {jobId}\<rparr>)
         | Rejected message \<Rightarrow> io_emit (CrawlError jobId message) srv')"

section \<open>startGatherer\<close>

record gather_request =
  gr_topic :: "string option"
  gr_keywords :: "string option"
  gr_limit :: "int option"
  gr_selectors :: selectors_field

definition itemsPerPage :: int where
  "itemsPerPage = 30"

definition search_url :: "string \<Rightarrow> int \<Rightarrow> string" where
  \<comment> \<open>line 180\<close>
  "search_url query offset =
     ''https://duckduckgo.com/html/?q='' @ encodeURIComponent query @ ''&s='' @ string_of_int offset"

function searchUrls_loop :: "int \<Rightarrow> int \<Rightarrow> string \<Rightarrow> string list \<Rightarrow> string list" where
  \<comment> \<open>lines 177-182: \<open>for (let i = 0; i < maxPages; i++)\<close>\<close>
  "searchUrls_loop i maxPages query searchUrls =
     (if i < maxPages
      then searchUrls_loop (i + 1) maxPages query
             (searchUrls @ [search_url query (i * itemsPerPage)])
      else searchUrls)"
  by pat_completeness auto
termination
  by (relation "measure (\<lambda>(i, maxPages, query, searchUrls). nat (maxPages - i))") auto

declare searchUrls_loop.simps [simp del]

definition search_query :: "string \<Rightarrow> string \<Rightarrow> string" where
  \<comment> \<open>line 175\<close>
  "search_query searchTopic searchKeywords = trim (searchTopic @ '' '' @ searchKeywords)"

definition gatherer_searchUrls :: "string \<Rightarrow> string \<Rightarrow> int \<Rightarrow> string list" where
  \<comment> \<open>lines 171-182\<close>
  "gatherer_searchUrls searchTopic searchKeywords targetLimit =
     (let maxPages = min 5 (ceil_div targetLimit 5);
          query = search_query searchTopic searchKeywords
      in searchUrls_loop 0 maxPages query [])"

definition gatherer_stop :: "string \<Rightarrow> server \<times> int \<Rightarrow> server \<times> int" where
  \<comment> \<open>a stop message during a Gather run: the counter of the job is not touched\<close>
  "gatherer_stop j st = (on_stop_crawl j (fst st), snd st)"

definition gatherer_pending ::
  "string \<Rightarrow> gather_request \<Rightarrow> action list \<Rightarrow> server \<Rightarrow> string + server \<times> int" where
  \<comment> \<open>lines 155-288: \<open>Inl message\<close> when the function throws before the run, else the state
      and \<open>emittedCount\<close> while \<open>await crawler.run(searchUrls)\<close> is pending\<close>
  "gatherer_pending jobId req acts srv =
     (let searchTopic = or_empty (gr_topic req);
          searchKeywords = or_empty (gr_keywords req);
          targetLimit = or_default (gr_limit req) 50;
          emittedCount = 0
      in if \<not> truthy searchTopic \<and> \<not> truthy searchKeywords
         then Inl ''No topic or keywords provided for search.''
         else
           (let normalizedSelectors = normalize_selectors (gr_selectors req);
                searchUrls = gatherer_searchUrls searchTopic searchKeywords targetLimit;
                srv1 = srv\<lparr>activeCrawlers := insert jobId (activeCrawlers srv)\<rparr>;
                srv2 = srv1\<lparr>runs := runs srv1 @ [(jobId, searchUrls)]\<rparr>
            in Inr (snd (crawler_run (targetLimit * 5)
                           (gatherer_requestHandler jobId searchKeywords targetLimit
                              normalizedSelectors)
                           gatherer_stop acts (0, (srv2, emittedCount))))))"

definition startGatherer ::
  "string \<Rightarrow> gather_request \<Rightarrow> action list \<Rightarrow> run_outcome \<Rightarrow> server \<Rightarrow> server" where
  \<comment> \<open>lines 154-296\<close>
  "startGatherer jobId req acts outcome srv =
     (case gatherer_pending jobId req acts srv of
        Inl message \<Rightarrow> io_emit (CrawlError jobId message) srv
      | Inr st \<Rightarrow>
          (case outcome of
             Resolved \<Rightarrow>
               io_emit (CrawlComplete jobId)
                 ((fst st)\<lparr>activeCrawlers := activeCrawlers (fst st) - {jobId}\<rparr>)
           | Rejected message \<Rightarrow> io_emit (CrawlError jobId message) (fst st)))"

section \<open>The HTTP routes\<close>

datatype response = Json string string

text \<open>
  A route answers \<open>{ jobId, message }\<close> after it has called the start function without
  awaiting it. \<open>jobId\<close> is the value of \<open>Date.now().toString()\<close> at the request; the
  result pairs the answer with the state of the server once the job has ended.
\<close>

definition api_crawl ::
  "string \<Rightarrow> crawl_request \<Rightarrow> action list \<Rightarrow> run_outcome \<Rightarrow> server \<Rightarrow> response \<times> server" where
  \<comment> \<open>lines 22-30\<close>
  "api_crawl jobId req acts outcome srv =
     (Json jobId ''Crawler started'', startCrawler jobId req acts outcome srv)"

definition api_gather ::
  "string \<Rightarrow> gather_request \<Rightarrow> action list \<Rightarrow> run_outcome \<Rightarrow> server \<Rightarrow> response \<times> server" where
  \<comment> \<open>lines 32-40\<close>
  "api_gather jobId req acts outcome srv =
     (Json jobId ''Gatherer started'', startGatherer jobId req acts outcome srv)"


definition server0 :: server where
  \<comment> \<open>the server after start-up: no job, nothing emitted\<close>
  "server0 = \<lparr> activeCrawlers = {}, teardowns = [], emitted = [], runs = [], enqueues = [] \<rparr>"



definition selector_kinds :: "string list" where
  \<comment> \<open>the five selector kinds of the client (\<open>selectorOptions\<close> in App.tsx)\<close>
  "selector_kinds = [''text'', ''headings'', ''meta'', ''images'', ''links'']"

section \<open>The link rule in the words of the specification\<close>







section \<open>Sample inputs\<close>

definition sample_page :: page where
  \<comment> \<open>a content page whose heading, image and link are each there twice, with one
      paragraph of exactly 20 characters and one of 21\<close>
  "sample_page =
     \<lparr> request_url = ''https://example.com/a'',
       title_text = ''Example'',
       body_text = ''Intro exactly twenty chars'',
       heading_texts = [''Intro'', ''Intro''],
       paragraph_texts = [''exactly twenty chars'', ''twenty-one characters''],
       meta_description = None,
       meta_keywords = None,
       img_elems = [\<lparr> img_src = Some ''https://example.com/i.png'', img_alt = None \<rparr>,
                    \<lparr> img_src = Some ''https://example.com/i.png'', img_alt = None \<rparr>],
       anchor_hrefs = [Some ''https://example.com/b'', Some ''https://example.com/b''],
       result_a_hrefs = [],
       result_title_a_hrefs = [],
       clock_iso = ''2024-01-01T00:00:00.000Z'' \<rparr>"

definition running :: "string \<Rightarrow> server" where
  \<comment> \<open>a server whose registry holds the one job\<close>
  "running jobId = server0\<lparr>activeCrawlers := {jobId}\<rparr>"



definition sample_crawl_request :: "string \<Rightarrow> int option \<Rightarrow> crawl_request" where
  \<comment> \<open>a Site request for the given URL without keywords, with the given parsed limit\<close>
  "sample_crawl_request u parsed =
     \<lparr> cr_url = u, cr_selectors = SelArray [''text''], cr_keywords = None, cr_limit = parsed \<rparr>"

definition empty_gather_request :: gather_request where
  \<comment> \<open>a Gather request with an empty topic and no keywords\<close>
  "empty_gather_request =
     \<lparr> gr_topic = Some [], gr_keywords = None, gr_limit = None, gr_selectors = SelAbsent \<rparr>"

section \<open>Facts about the string primitives\<close>

lemma startsWith_prefix: "startsWith s p = prefix p s"
  unfolding startsWith_def
  by (metis prefix_def append_eq_conv_conj append_take_drop_id)

lemma str_includes_sublist: "str_includes s k = sublist k s"
  by (induction s) (simp_all add: startsWith_prefix sublist_Cons_right)

lemma some_iff: "some P xs = (\<exists>x\<in>set xs. P x)"
  by (simp add: some_def list_ex_iff)

section \<open>The keyword filter\<close>






text \<open>
  C10: in Site mode a keywords string that is not empty and has a segment that is empty
  after trimming accepts every page, whatever its body text.
\<close>

theorem empty_segment_accepts_all:
  assumes "kws \<noteq> []" and "[] \<in> set (map trim (split kws CHR '',''))"
  shows "crawler_matchesKeywords (Some kws) body"
proof -
  from assms(2) obtain seg where seg: "seg \<in> set (split kws CHR '','')" "trim seg = []"
    by auto
  then have "toLowerCase (trim seg) \<in> set (crawler_keywordList kws)"
    by (force simp: crawler_keywordList_def)
  moreover have "toLowerCase (trim seg) = []" using seg(2) by (simp add: toLowerCase_def)
  ultimately have "[] \<in> set (crawler_keywordList kws)" by simp
  moreover have "str_includes (toLowerCase body) []" by (simp add: str_includes_sublist)
  ultimately have "some (\<lambda>k. str_includes (toLowerCase body) k) (crawler_keywordList kws)"
    unfolding some_iff by blast
  with assms(1) show ?thesis by (simp add: crawler_matchesKeywords_def)
qed

text \<open>The theorem at a trailing comma and at a keywords string of two spaces.\<close>

theorem empty_segment_accepts_all_witness:
  "''ai,'' \<noteq> [] \<and> [] \<in> set (map trim (split ''ai,'' CHR '',''))
   \<and> crawler_matchesKeywords (Some ''ai,'') ''nothing relevant here''
   \<and> [] \<in> set (map trim (split ''  '' CHR '',''))
   \<and> crawler_matchesKeywords (Some ''  '') ''nothing relevant here''"
proof -
  have a: "[] \<in> set (map trim (split ''ai,'' CHR '',''))" by code_simp
  have b: "[] \<in> set (map trim (split ''  '' CHR '',''))" by code_simp
  have n1: "''ai,'' \<noteq> []" by simp
  have n2: "''  '' \<noteq> []" by simp
  note r1 = empty_segment_accepts_all [OF n1 a, of "''nothing relevant here''"]
  note r2 = empty_segment_accepts_all [OF n2 b, of "''nothing relevant here''"]
  from n1 a r1 b r2 show ?thesis by blast
qed

section \<open>The search query planner\<close>







section \<open>The extracted record\<close>


lemma fold_insert_set:
  "set (fold (\<lambda>x acc. if x \<in> set acc then acc else acc @ [x]) xs acc) = set acc \<union> set xs"
  by (induction xs arbitrary: acc) auto


lemma set_new_Set: "set (new_Set xs) = set xs"
  unfolding new_Set_def by (simp add: fold_insert_set)







section \<open>The text extractor\<close>




section \<open>Selectors and the fields of the record\<close>

lemma kinds_trigger_words:
  "list_all (\<lambda>s. (str_includes s ''heading'' \<longrightarrow> s = ''headings'')
                \<and> (str_includes s ''text'' \<or> str_includes s ''paragraph'' \<longrightarrow> s = ''text'')
                \<and> (str_includes s ''meta'' \<longrightarrow> s = ''meta'')
                \<and> (str_includes s ''image'' \<longrightarrow> s = ''images'')
                \<and> (str_includes s ''link'' \<or> str_includes s ''url'' \<longrightarrow> s = ''links''))
     selector_kinds"
  by code_simp

lemma gatherer_fields_gated:
  "(rec_headings (gatherer_extract sels title p) \<noteq> None \<longrightarrow> ''headings'' \<in> set sels)
   \<and> (rec_text (gatherer_extract sels title p) \<noteq> None \<longrightarrow> ''text'' \<in> set sels)
   \<and> (rec_meta (gatherer_extract sels title p) \<noteq> None \<longrightarrow> ''meta'' \<in> set sels)
   \<and> (rec_images (gatherer_extract sels title p) \<noteq> None \<longrightarrow> ''images'' \<in> set sels)
   \<and> (rec_links (gatherer_extract sels title p) \<noteq> None \<longrightarrow> ''links'' \<in> set sels)"
  by (simp add: gatherer_extract_def array_includes_def)

lemma crawler_fields_gated:
  "(rec_headings (crawler_extract sels p) \<noteq> None \<longrightarrow> (\<exists>s\<in>set sels. sublist ''heading'' s))
   \<and> (rec_text (crawler_extract sels p) \<noteq> None \<longrightarrow>
        (\<exists>s\<in>set sels. sublist ''text'' s \<or> sublist ''paragraph'' s))
   \<and> (rec_meta (crawler_extract sels p) \<noteq> None \<longrightarrow> (\<exists>s\<in>set sels. sublist ''meta'' s))
   \<and> (rec_images (crawler_extract sels p) \<noteq> None \<longrightarrow> (\<exists>s\<in>set sels. sublist ''image'' s))
   \<and> (rec_links (crawler_extract sels p) \<noteq> None \<longrightarrow>
        (\<exists>s\<in>set sels. sublist ''link'' s \<or> sublist ''url'' s))"
  unfolding crawler_extract_def some_iff str_includes_sublist by simp

lemma crawler_fields_gated_kinds:
  assumes "set sels \<subseteq> set selector_kinds"
  shows "(rec_headings (crawler_extract sels p) \<noteq> None \<longrightarrow> ''headings'' \<in> set sels)
   \<and> (rec_text (crawler_extract sels p) \<noteq> None \<longrightarrow> ''text'' \<in> set sels)
   \<and> (rec_meta (crawler_extract sels p) \<noteq> None \<longrightarrow> ''meta'' \<in> set sels)
   \<and> (rec_images (crawler_extract sels p) \<noteq> None \<longrightarrow> ''images'' \<in> set sels)
   \<and> (rec_links (crawler_extract sels p) \<noteq> None \<longrightarrow> ''links'' \<in> set sels)"
proof -
  have k: "(sublist ''heading'' s \<longrightarrow> s = ''headings'')
         \<and> (sublist ''text'' s \<or> sublist ''paragraph'' s \<longrightarrow> s = ''text'')
         \<and> (sublist ''meta'' s \<longrightarrow> s = ''meta'')
         \<and> (sublist ''image'' s \<longrightarrow> s = ''images'')
         \<and> (sublist ''link'' s \<or> sublist ''url'' s \<longrightarrow> s = ''links'')" if "s \<in> set sels" for s
  proof -
    from that assms have "s \<in> set selector_kinds" by blast
    with kinds_trigger_words show ?thesis
      unfolding list_all_iff str_includes_sublist by blast
  qed
  note g = crawler_fields_gated [of sels p]
  have 1: "rec_headings (crawler_extract sels p) \<noteq> None \<longrightarrow> ''headings'' \<in> set sels"
    using g k by blast
  have 2: "rec_text (crawler_extract sels p) \<noteq> None \<longrightarrow> ''text'' \<in> set sels"
    using g k by blast
  have 3: "rec_meta (crawler_extract sels p) \<noteq> None \<longrightarrow> ''meta'' \<in> set sels"
    using g k by blast
  have 4: "rec_images (crawler_extract sels p) \<noteq> None \<longrightarrow> ''images'' \<in> set sels"
    using g k by blast
  have 5: "rec_links (crawler_extract sels p) \<noteq> None \<longrightarrow> ''links'' \<in> set sels"
    using g k by blast
  from 1 2 3 4 5 show ?thesis by blast
qed

text \<open>
  C8, as the code has it. In Gather mode an optional field is in the record only if the
  name of its kind is among the normalized selectors of the job. In Site mode a field is
  in the record only if some normalized selector contains the trigger word of the field
  as a substring (heading; text or paragraph; meta; image; link or url); when every
  selector of the job is one of the five kind names, that is the kind being requested.
\<close>

theorem fields_gated_by_selectors:
  "((rec_headings (gatherer_extract sels title p) \<noteq> None \<longrightarrow> ''headings'' \<in> set sels)
    \<and> (rec_text (gatherer_extract sels title p) \<noteq> None \<longrightarrow> ''text'' \<in> set sels)
    \<and> (rec_meta (gatherer_extract sels title p) \<noteq> None \<longrightarrow> ''meta'' \<in> set sels)
    \<and> (rec_images (gatherer_extract sels title p) \<noteq> None \<longrightarrow> ''images'' \<in> set sels)
    \<and> (rec_links (gatherer_extract sels title p) \<noteq> None \<longrightarrow> ''links'' \<in> set sels))
   \<and> ((rec_headings (crawler_extract sels p) \<noteq> None \<longrightarrow> (\<exists>s\<in>set sels. sublist ''heading'' s))
    \<and> (rec_text (crawler_extract sels p) \<noteq> None \<longrightarrow>
         (\<exists>s\<in>set sels. sublist ''text'' s \<or> sublist ''paragraph'' s))
    \<and> (rec_meta (crawler_extract sels p) \<noteq> None \<longrightarrow> (\<exists>s\<in>set sels. sublist ''meta'' s))
    \<and> (rec_images (crawler_extract sels p) \<noteq> None \<longrightarrow> (\<exists>s\<in>set sels. sublist ''image'' s))
    \<and> (rec_links (crawler_extract sels p) \<noteq> None \<longrightarrow>
         (\<exists>s\<in>set sels. sublist ''link'' s \<or> sublist ''url'' s)))
   \<and> (set sels \<subseteq> set selector_kinds \<longrightarrow>
        (rec_headings (crawler_extract sels p) \<noteq> None \<longrightarrow> ''headings'' \<in> set sels)
      \<and> (rec_text (crawler_extract sels p) \<noteq> None \<longrightarrow> ''text'' \<in> set sels)
      \<and> (rec_meta (crawler_extract sels p) \<noteq> None \<longrightarrow> ''meta'' \<in> set sels)
      \<and> (rec_images (crawler_extract sels p) \<noteq> None \<longrightarrow> ''images'' \<in> set sels)
      \<and> (rec_links (crawler_extract sels p) \<noteq> None \<longrightarrow> ''links'' \<in> set sels))"
proof (intro conjI impI)
  assume "set sels \<subseteq> set selector_kinds" and "rec_headings (crawler_extract sels p) \<noteq> None"
  then show "''headings'' \<in> set sels" using crawler_fields_gated_kinds by blast
next
  assume "set sels \<subseteq> set selector_kinds" and "rec_text (crawler_extract sels p) \<noteq> None"
  then show "''text'' \<in> set sels" using crawler_fields_gated_kinds by blast
next
  assume "set sels \<subseteq> set selector_kinds" and "rec_meta (crawler_extract sels p) \<noteq> None"
  then show "''meta'' \<in> set sels" using crawler_fields_gated_kinds by blast
next
  assume "set sels \<subseteq> set selector_kinds" and "rec_images (crawler_extract sels p) \<noteq> None"
  then show "''images'' \<in> set sels" using crawler_fields_gated_kinds by blast
next
  assume "set sels \<subseteq> set selector_kinds" and "rec_links (crawler_extract sels p) \<noteq> None"
  then show "''links'' \<in> set sels" using crawler_fields_gated_kinds by blast
qed (use gatherer_fields_gated [of sels title p] crawler_fields_gated [of sels p] in blast)+

text \<open>
  The theorem at the selectors \<open>text, links\<close> and the sample page: both modes put the
  two fields in the record, and both kinds are among the selectors.
\<close>

theorem fields_gated_by_selectors_witness:
  "set [''text'', ''links''] \<subseteq> set selector_kinds
   \<and> rec_text (gatherer_extract [''text'', ''links''] ''Example'' sample_page) \<noteq> None
   \<and> rec_links (crawler_extract [''text'', ''links''] sample_page) \<noteq> None
   \<and> rec_headings (crawler_extract [''text'', ''links''] sample_page) = None
   \<and> ''text'' \<in> set [''text'', ''links'']
   \<and> ''links'' \<in> set [''text'', ''links'']"
proof -
  have a: "set [''text'', ''links''] \<subseteq> set selector_kinds" by code_simp
  have b: "rec_text (gatherer_extract [''text'', ''links''] ''Example'' sample_page) \<noteq> None"
    by code_simp
  have c: "rec_links (crawler_extract [''text'', ''links''] sample_page) \<noteq> None" by code_simp
  have d: "rec_headings (crawler_extract [''text'', ''links''] sample_page) = None" by code_simp
  note t = fields_gated_by_selectors [of "[''text'', ''links'']" "''Example''" sample_page]
  from t a b c have e: "''text'' \<in> set [''text'', ''links'']" by blast
  from t a b c have f: "''links'' \<in> set [''text'', ''links'']" by blast
  from a b c d e f show ?thesis by blast
qed

text \<open>
  C8 as stated fails in Site mode: with the selectors \<open>url, context\<close> the emitted record
  has the fields links and text, and neither kind is among the selectors of the job.
\<close>

theorem fields_without_kind_counterexample:
  "normalize_selectors (SelString ''URL, context'') = [''url'', ''context'']
   \<and> ''links'' \<notin> set [''url'', ''context'']
   \<and> ''text'' \<notin> set [''url'', ''context'']
   \<and> emitted (crawler_requestHandler ''1'' [''url'', ''context''] None sample_page (running ''1''))
       = [CrawlData ''1'' (crawler_extract [''url'', ''context''] sample_page)]
   \<and> rec_links (crawler_extract [''url'', ''context''] sample_page) = Some [''https://example.com/b'']
   \<and> rec_text (crawler_extract [''url'', ''context''] sample_page)
       = Some [''exactly twenty chars'', ''twenty-one characters'']"
proof -
  have a: "normalize_selectors (SelString ''URL, context'') = [''url'', ''context'']" by code_simp
  have b: "''links'' \<notin> set [''url'', ''context'']" by simp
  have c: "''text'' \<notin> set [''url'', ''context'']" by simp
  have d: "emitted (crawler_requestHandler ''1'' [''url'', ''context''] None sample_page (running ''1''))
       = [CrawlData ''1'' (crawler_extract [''url'', ''context''] sample_page)]"
    by code_simp
  have e: "rec_links (crawler_extract [''url'', ''context''] sample_page)
             = Some [''https://example.com/b'']"
    by code_simp
  have f: "rec_text (crawler_extract [''url'', ''context''] sample_page)
       = Some [''exactly twenty chars'', ''twenty-one characters'']"
    by code_simp
  from a b c d e f show ?thesis by blast
qed

section \<open>Links of a search-results page\<close>


lemma ddg_link_step_keeps:
  "emitted (ddg_link_step jobId link srv) = emitted srv
   \<and> activeCrawlers (ddg_link_step jobId link srv) = activeCrawlers srv
   \<and> teardowns (ddg_link_step jobId link srv) = teardowns srv
   \<and> runs (ddg_link_step jobId link srv) = runs srv"
  by (simp add: ddg_link_step_def Let_def enqueueLinks_def)

lemma fold_ddg_keeps:
  "emitted (fold (ddg_link_step jobId) links srv) = emitted srv
   \<and> activeCrawlers (fold (ddg_link_step jobId) links srv) = activeCrawlers srv
   \<and> teardowns (fold (ddg_link_step jobId) links srv) = teardowns srv
   \<and> runs (fold (ddg_link_step jobId) links srv) = runs srv"
  by (induction links arbitrary: srv) (simp_all add: ddg_link_step_keeps)








section \<open>Runs: what one handler call and one stop message do\<close>






lemma crawler_handler_registry:
  "activeCrawlers (crawler_requestHandler jobId sels kws p srv) = activeCrawlers srv"
  by (simp add: crawler_requestHandler_def Let_def io_emit_def enqueueLinks_def)




lemma gatherer_handler_registry:
  "activeCrawlers (fst (gatherer_requestHandler jobId kw L sels p st)) = activeCrawlers (fst st)"
  by (simp add: gatherer_requestHandler_def Let_def io_emit_def fold_ddg_keeps)


section \<open>Runs: invariants of the run loop\<close>














section \<open>The number of records of a job\<close>




section \<open>Stopping a job\<close>



section \<open>Start requests without a seed\<close>

lemma gatherer_pending_invalid:
  assumes "or_empty (gr_topic greq) = []" and "or_empty (gr_keywords greq) = []"
  shows "gatherer_pending jobId greq acts srv = Inl ''No topic or keywords provided for search.''"
  using assms by (simp add: gatherer_pending_def truthy_def)

lemma crawler_pending_start:
  "jobId \<in> activeCrawlers (crawler_pending jobId creq [] srv)
   \<and> runs (crawler_pending jobId creq [] srv) = runs srv @ [(jobId, [cr_url creq])]
   \<and> emitted (crawler_pending jobId creq [] srv) = emitted srv"
  by (simp add: crawler_pending_def Let_def)

text \<open>
  C2, as the code has it. A Gather request with neither topic nor keywords gets the
  usual answer with a job id; the start function throws before a crawler exists, so the
  registry and the runs stay as they were, no record and no completion is emitted, and
  exactly one \<open>crawl-error\<close> event with the message of the exception is emitted. A Site
  request is not checked: whatever its URL, the answer is the usual one, and the crawler
  is registered and run on that URL before anything is emitted.
\<close>

theorem start_without_seed:
  "(or_empty (gr_topic greq) = [] \<and> or_empty (gr_keywords greq) = [] \<longrightarrow>
      api_gather jobId greq acts outcome srv =
        (Json jobId ''Gatherer started'',
         srv\<lparr>emitted := emitted srv
                @ [CrawlError jobId ''No topic or keywords provided for search.'']\<rparr>))
   \<and> fst (api_crawl jobId creq acts outcome srv) = Json jobId ''Crawler started''
   \<and> jobId \<in> activeCrawlers (crawler_pending jobId creq [] srv)
   \<and> runs (crawler_pending jobId creq [] srv) = runs srv @ [(jobId, [cr_url creq])]
   \<and> emitted (crawler_pending jobId creq [] srv) = emitted srv"
proof -
  have 1: "or_empty (gr_topic greq) = [] \<and> or_empty (gr_keywords greq) = [] \<longrightarrow>
      api_gather jobId greq acts outcome srv =
        (Json jobId ''Gatherer started'',
         srv\<lparr>emitted := emitted srv
                @ [CrawlError jobId ''No topic or keywords provided for search.'']\<rparr>)"
    by (simp add: api_gather_def startGatherer_def gatherer_pending_invalid io_emit_def)
  have 2: "fst (api_crawl jobId creq acts outcome srv) = Json jobId ''Crawler started''"
    by (simp add: api_crawl_def)
  from 1 2 crawler_pending_start [of jobId creq srv] show ?thesis by blast
qed

text \<open>
  The theorem at a Gather request with an empty topic and no keywords, on the server
  after start-up: the answer carries the job id, and the only event is the error.
\<close>

theorem start_without_seed_witness:
  "or_empty (gr_topic empty_gather_request) = [] \<and> or_empty (gr_keywords empty_gather_request) = []
   \<and> api_gather ''1700000000000'' empty_gather_request [Request sample_page] Resolved server0 =
        (Json ''1700000000000'' ''Gatherer started'',
         server0\<lparr>emitted := emitted server0
            @ [CrawlError ''1700000000000'' ''No topic or keywords provided for search.'']\<rparr>)"
proof -
  have a: "or_empty (gr_topic empty_gather_request) = []"
    by (simp add: empty_gather_request_def or_empty_def)
  have b: "or_empty (gr_keywords empty_gather_request) = []"
    by (simp add: empty_gather_request_def or_empty_def)
  note t = start_without_seed [where greq = empty_gather_request and jobId = "''1700000000000''"
      and acts = "[Request sample_page]" and outcome = Resolved and srv = server0]
  from t a b show ?thesis by blast
qed

text \<open>
  C2 as stated fails: the Gather request without topic and keywords is answered with
  a job id and the message "Gatherer started", and an error event is emitted for it;
  the Site request with an empty URL is answered likewise, and its crawler is
  registered and run.
\<close>

theorem invalid_start_accepted_counterexample:
  "fst (api_gather ''1700000000000'' empty_gather_request [] Resolved server0)
     = Json ''1700000000000'' ''Gatherer started''
   \<and> emitted (snd (api_gather ''1700000000000'' empty_gather_request [] Resolved server0))
     = [CrawlError ''1700000000000'' ''No topic or keywords provided for search.'']
   \<and> fst (api_crawl ''1700000000001'' (sample_crawl_request '''' None) [] Resolved server0)
     = Json ''1700000000001'' ''Crawler started''
   \<and> ''1700000000001'' \<in> activeCrawlers (crawler_pending ''1700000000001''
                                            (sample_crawl_request '''' None) [] server0)
   \<and> runs (crawler_pending ''1700000000001'' (sample_crawl_request '''' None) [] server0)
     = [(''1700000000001'', [''''])]"
proof -
  have a: "fst (api_gather ''1700000000000'' empty_gather_request [] Resolved server0)
     = Json ''1700000000000'' ''Gatherer started''"
    by (simp add: api_gather_def)
  have b: "emitted (snd (api_gather ''1700000000000'' empty_gather_request [] Resolved server0))
     = [CrawlError ''1700000000000'' ''No topic or keywords provided for search.'']"
    by code_simp
  have c: "fst (api_crawl ''1700000000001'' (sample_crawl_request '''' None) [] Resolved server0)
     = Json ''1700000000001'' ''Crawler started''"
    by (simp add: api_crawl_def)
  have d: "''1700000000001'' \<in> activeCrawlers (crawler_pending ''1700000000001''
                                            (sample_crawl_request '''' None) [] server0)"
    by code_simp
  have e: "runs (crawler_pending ''1700000000001'' (sample_crawl_request '''' None) [] server0)
     = [(''1700000000001'', [''''])]"
    by code_simp
  from a b c d e show ?thesis by blast
qed

end
